theory Spec2Isabelle
  imports Main
begin

section \<open>JavaScript values, errors and promise outcomes\<close>

text \<open>
  The module \<^verbatim>\<open>S3Tools.js\<close> inspects its arguments with \<^verbatim>\<open>typeof\<close>, so arguments are
  modelled as untyped JavaScript values. An omitted argument is \<open>JUndefined\<close>, as in
  JavaScript. Numbers only occur through their type tag and their truthiness here, so an
  integer payload is enough. A \<open>JBuffer\<close> holds bytes (a \<open>char\<close> is one byte), a
  \<open>JString\<close> holds text.
\<close>

type_synonym bytes = "char list"

datatype jsval =
    JUndefined
  | JNull
  | JBoolean bool
  | JNumber int
  | JString string
  | JBuffer bytes
  | JArray "jsval list"
  | JObject "(string \<times> jsval) list"
  | JFunction

fun typeof :: "jsval \<Rightarrow> string" where
  "typeof JUndefined = ''undefined''"
| "typeof JNull = ''object''"
| "typeof (JBoolean b) = ''boolean''"
| "typeof (JNumber n) = ''number''"
| "typeof (JString s) = ''string''"
| "typeof (JBuffer b) = ''object''"
| "typeof (JArray xs) = ''object''"
| "typeof (JObject ps) = ''object''"
| "typeof JFunction = ''function''"

text \<open>Truthiness, as tested by \<^verbatim>\<open>!v\<close> and \<^verbatim>\<open>if (v)\<close>.\<close>

fun truthy :: "jsval \<Rightarrow> bool" where
  "truthy JUndefined = False"
| "truthy JNull = False"
| "truthy (JBoolean b) = b"
| "truthy (JNumber n) = (n \<noteq> 0)"
| "truthy (JString s) = (s \<noteq> [])"
| "truthy (JBuffer b) = True"
| "truthy (JArray xs) = True"
| "truthy (JObject ps) = True"
| "truthy JFunction = True"

text \<open>\<^verbatim>\<open>Buffer.isBuffer(v)\<close>.\<close>

fun isBuffer :: "jsval \<Rightarrow> bool" where
  "isBuffer (JBuffer b) = True"
| "isBuffer v = False"

text \<open>
  \<^verbatim>\<open>Array.prototype.indexOf\<close>: the first index whose element is strictly equal to the value,
  or \<open>-1\<close>. The only array searched is an array of strings, on which strict equality is
  equality of values.
\<close>

fun indexOf :: "jsval list \<Rightarrow> jsval \<Rightarrow> int" where
  "indexOf [] v = - 1"
| "indexOf (x # xs) v =
     (if x = v then 0 else (let i = indexOf xs v in if i = - 1 then - 1 else i + 1))"

text \<open>
  The error object that the storage client hands to a callback: the module reads only its
  \<^verbatim>\<open>retryable\<close> property.
\<close>

record aws_error =
  code :: string
  retryable :: bool

datatype error =
    Error string
  | TypeError string
  | SyntaxError string
  | ZlibError string
  | AWSError aws_error

text \<open>
  The outcome of a promise once nothing is left to run. \<open>Uncaught e\<close> is the outcome of a
  promise that is never settled because the exception \<open>e\<close> was thrown inside a callback
  that runs outside the promise's executor: the exception reaches the event loop and
  neither \<^verbatim>\<open>resolve\<close> nor \<^verbatim>\<open>reject\<close> is ever called.
\<close>

datatype 'a promise = Resolved 'a | Rejected error | Uncaught error

section \<open>The platform libraries\<close>

text \<open>
  \<^verbatim>\<open>zlib\<close>, \<^verbatim>\<open>JSON\<close> and \<^verbatim>\<open>Buffer.prototype.toString\<close> belong to the platform, not to the
  module; they are parameters of the model. \<^verbatim>\<open>zlib.gunzip(v, cb)\<close> either throws at once
  (an argument it does not accept), or calls \<^verbatim>\<open>cb(err)\<close>, or calls \<^verbatim>\<open>cb(null, data)\<close>.
\<close>

datatype zlib_outcome = Thrown error | Failed error | Inflated bytes

record runtime =
  gunzip :: "jsval \<Rightarrow> zlib_outcome"
  toString :: "jsval \<Rightarrow> string"
  JSON_parse :: "string \<Rightarrow> error + jsval"
  JSON_stringify :: "jsval \<Rightarrow> error + string"

text \<open>
  The method call \<^verbatim>\<open>v.toString()\<close>: reading a property of \<^verbatim>\<open>undefined\<close> or \<^verbatim>\<open>null\<close> throws
  a \<^verbatim>\<open>TypeError\<close>; on every other value the platform produces a text.
\<close>

definition call_toString :: "runtime \<Rightarrow> jsval \<Rightarrow> error + string" where
  "call_toString rt v =
     (if v = JUndefined \<or> v = JNull
      then Inl (TypeError ''Cannot read properties of undefined'')
      else Inr (toString rt v))"

section \<open>The storage client\<close>

text \<open>
  The collaborator \<^verbatim>\<open>this.cli\<close> together with the remote service behind it. Every request
  made through the client is appended to \<open>requests\<close>. The reply to a Get or a Put is
  scripted by the position of the request in that sequence, so that successive attempts
  of one call can be answered differently. List and Delete act on the stored objects
  (pairs of bucket and key), a listing page holds at most \<open>page_size\<close> keys, and
  \<open>faults\<close> can make any List or Delete request fail.
\<close>

record get_output =
  Body :: jsval
  ContentType :: string

record put_output =
  ETag :: string

record listing =
  Contents :: "string list"
  IsTruncated :: bool

datatype request =
    GetObject jsval jsval
  | PutObject jsval jsval string string
  | ListObjectsV2 jsval jsval
  | DeleteObjects jsval "string list"

record s3 =
  get_replies :: "nat \<Rightarrow> aws_error + get_output"
  put_replies :: "nat \<Rightarrow> aws_error + put_output"
  faults :: "nat \<Rightarrow> aws_error option"
  objects :: "(string \<times> string) list"
  page_size :: nat
  requests :: "request list"

definition cli_getObject :: "jsval \<Rightarrow> jsval \<Rightarrow> s3 \<Rightarrow> (aws_error + get_output) \<times> s3" where
  "cli_getObject bucket key c =
     (get_replies c (length (requests c)),
      c\<lparr>requests := requests c @ [GetObject bucket key]\<rparr>)"

definition cli_putObject ::
    "jsval \<Rightarrow> jsval \<Rightarrow> string \<Rightarrow> string \<Rightarrow> s3 \<Rightarrow> (aws_error + put_output) \<times> s3" where
  "cli_putObject bucket key body ctype c =
     (put_replies c (length (requests c)),
      c\<lparr>requests := requests c @ [PutObject bucket key body ctype]\<rparr>)"

text \<open>The objects a listing of \<^verbatim>\<open>{Bucket, Prefix}\<close> selects; an absent prefix selects the whole bucket.\<close>

fun selects :: "jsval \<Rightarrow> jsval \<Rightarrow> string \<times> string \<Rightarrow> bool" where
  "selects bucket prefix (b, k) =
     (bucket = JString b \<and>
      (case prefix of
         JString p \<Rightarrow> take (length p) k = p
       | JUndefined \<Rightarrow> True
       | _ \<Rightarrow> False))"

definition keys_under :: "jsval \<Rightarrow> jsval \<Rightarrow> s3 \<Rightarrow> string list" where
  "keys_under bucket prefix c = map snd (filter (selects bucket prefix) (objects c))"

definition cli_listObjectsV2 :: "jsval \<Rightarrow> jsval \<Rightarrow> s3 \<Rightarrow> (aws_error + listing) \<times> s3" where
  "cli_listObjectsV2 bucket prefix c =
     (let c' = c\<lparr>requests := requests c @ [ListObjectsV2 bucket prefix]\<rparr> in
      case faults c (length (requests c)) of
        Some e \<Rightarrow> (Inl e, c')
      | None \<Rightarrow>
          (Inr \<lparr>Contents = take (page_size c) (keys_under bucket prefix c),
                IsTruncated = (page_size c < length (keys_under bucket prefix c))\<rparr>, c'))"

definition cli_deleteObjects :: "jsval \<Rightarrow> string list \<Rightarrow> s3 \<Rightarrow> (aws_error + unit) \<times> s3" where
  "cli_deleteObjects bucket keys c =
     (let c' = c\<lparr>requests := requests c @ [DeleteObjects bucket keys]\<rparr> in
      case faults c (length (requests c)) of
        Some e \<Rightarrow> (Inl e, c')
      | None \<Rightarrow>
          (Inr (),
           c'\<lparr>objects := filter (\<lambda>(b, k). \<not> (bucket = JString b \<and> k \<in> set keys)) (objects c)\<rparr>))"

section \<open>The module\<close>

definition BAD_PARAM :: string where
  "BAD_PARAM = ''S3_TOOLS_BAD_PARAM''"

definition GET_OBJECT_RETURN_TYPE_ALLOWED :: "jsval list" where
  "GET_OBJECT_RETURN_TYPE_ALLOWED =
     [JString ''string'', JString ''buffer'', JString ''object'', JString ''all'']"

definition FILE_NOT_EXIST :: string where
  "FILE_NOT_EXIST = ''FILE_NOT_FOUND''"

text \<open>
  The class keeps the client and \<^verbatim>\<open>retryMax\<close>. The client is the state threaded through
  every method below. \<^verbatim>\<open>opt.retryMax || 5\<close>: an absent or zero option gives 5.
\<close>

record S3Tools =
  retryMax :: nat

definition new_S3Tools :: "nat option \<Rightarrow> S3Tools" where
  "new_S3Tools opt_retryMax =
     \<lparr>retryMax = (case opt_retryMax of None \<Rightarrow> 5 | Some n \<Rightarrow> if n = 0 then 5 else n)\<rparr>"

text \<open>
  Modelled from the spec: \<^verbatim>\<open>utils.retry\<close> of \<^verbatim>\<open>./utils\<close>, which is not among the sources.
  The specification's RetryExecutor: the operation is attempted; a failure that is not
  retryable is propagated at once; a retryable failure is retried up to \<open>maxAttempts\<close>
  attempts in total, the first included; when the attempts are exhausted the error of the
  final attempt is surfaced. The delay between attempts is not modelled. The operation is
  attempted at least once.
\<close>

fun retry :: "('s \<Rightarrow> (aws_error + 'a) \<times> 's) \<Rightarrow> nat \<Rightarrow> 's \<Rightarrow> (aws_error + 'a) \<times> 's" where
  "retry fn maxAttempts c =
     (case fn c of
        (Inr v, c') \<Rightarrow> (Inr v, c')
      | (Inl e, c') \<Rightarrow>
          (if retryable e \<and> 1 < maxAttempts then retry fn (maxAttempts - 1) c'
           else (Inl e, c')))"

declare retry.simps [simp del]

text \<open>
  \<^verbatim>\<open>_formatGetObjectResponse(data, returnType, gzip)\<close>. An exception thrown while the
  executor of the promise runs rejects the promise; \<^verbatim>\<open>JSON.parse\<close> inside the callback of
  \<^verbatim>\<open>zlib.gunzip\<close> runs later, outside the executor.
\<close>

datatype get_result = Formatted jsval | FullResponse get_output

definition formatGetObjectResponse ::
    "runtime \<Rightarrow> get_output \<Rightarrow> jsval \<Rightarrow> jsval \<Rightarrow> get_result promise" where
  "formatGetObjectResponse rt data returnType gzip =
     (if returnType = JString ''buffer'' then
        (if \<not> truthy gzip then Resolved (Formatted (Body data))
         else (case gunzip rt (Body data) of
                 Thrown e \<Rightarrow> Rejected e
               | Failed err \<Rightarrow> Rejected err
               | Inflated d \<Rightarrow> Resolved (Formatted (JBuffer d))))
      else if returnType = JString ''string'' then
        (if \<not> truthy gzip then
           (case call_toString rt (Body data) of
              Inl e \<Rightarrow> Rejected e
            | Inr s \<Rightarrow> Resolved (Formatted (JString s)))
         else (case gunzip rt (Body data) of
                 Thrown e \<Rightarrow> Rejected e
               | Failed err \<Rightarrow> Rejected err
               | Inflated d \<Rightarrow> Resolved (Formatted (JString (toString rt (JBuffer d))))))
      else if returnType = JString ''object'' then
        (if \<not> truthy gzip then
           (case call_toString rt (Body data) of
              Inl e \<Rightarrow> Rejected e
            | Inr s \<Rightarrow>
                (case JSON_parse rt s of
                   Inl e \<Rightarrow> Rejected e
                 | Inr v \<Rightarrow> Resolved (Formatted v)))
         else (case gunzip rt (Body data) of
                 Thrown e \<Rightarrow> Rejected e
               | Failed err \<Rightarrow> Rejected err
               | Inflated d \<Rightarrow>
                   (case JSON_parse rt (toString rt (JBuffer d)) of
                      Inl e \<Rightarrow> Uncaught e
                    | Inr v \<Rightarrow> Resolved (Formatted v))))
      else Resolved (FullResponse data))"

text \<open>
  \<^verbatim>\<open>getObject(bucket, key, returnType = "object", gzip = false)\<close>. A default applies when
  the argument is \<^verbatim>\<open>undefined\<close>. The result is the outcome of the returned promise and the
  client afterwards.
\<close>

definition getObject ::
    "S3Tools \<Rightarrow> runtime \<Rightarrow> jsval \<Rightarrow> jsval \<Rightarrow> jsval \<Rightarrow> jsval \<Rightarrow> s3 \<Rightarrow> get_result promise \<times> s3" where
  "getObject this rt bucket key returnType_arg gzip_arg c =
     (let returnType = (if returnType_arg = JUndefined then JString ''object'' else returnType_arg);
          gzip = (if gzip_arg = JUndefined then JBoolean False else gzip_arg)
      in
      if typeof bucket \<noteq> ''string'' \<or> typeof key \<noteq> ''string''
         \<or> indexOf GET_OBJECT_RETURN_TYPE_ALLOWED returnType = - 1
         \<or> typeof gzip \<noteq> ''boolean''
      then (Rejected (Error (BAD_PARAM @ ''_GetObject'')), c)
      else
        (case cli_getObject bucket key c of
           (Inl err, c1) \<Rightarrow>
             (if retryable err then
                (case retry (cli_getObject bucket key) (retryMax this) c1 of
                   (Inl e, c2) \<Rightarrow> (Rejected (AWSError e), c2)
                 | (Inr data, c2) \<Rightarrow> (formatGetObjectResponse rt data returnType gzip, c2))
              else (Rejected (AWSError err), c1))
         | (Inr data, c1) \<Rightarrow>
             (if \<not> truthy (Body data) \<or> \<not> isBuffer (Body data)
              then (Rejected (Error FILE_NOT_EXIST), c1)
              else (formatGetObjectResponse rt data returnType gzip, c1))))"

text \<open>
  \<^verbatim>\<open>putJsonObject(bucket, key, json)\<close>. \<^verbatim>\<open>JSON.stringify\<close> runs inside the executor, so an
  exception it throws rejects the promise before any request is made.
\<close>

definition putJsonObject ::
    "S3Tools \<Rightarrow> runtime \<Rightarrow> jsval \<Rightarrow> jsval \<Rightarrow> jsval \<Rightarrow> s3 \<Rightarrow> put_output promise \<times> s3" where
  "putJsonObject this rt bucket key json c =
     (if typeof bucket \<noteq> ''string'' \<or> typeof key \<noteq> ''string'' \<or> typeof json \<noteq> ''object''
      then (Rejected (Error (BAD_PARAM @ ''_PutObject'')), c)
      else
        (case JSON_stringify rt json of
           Inl e \<Rightarrow> (Rejected e, c)
         | Inr body \<Rightarrow>
             (case cli_putObject bucket key body ''application/json'' c of
                (Inl err, c1) \<Rightarrow>
                  (if retryable err then
                     (case retry (cli_putObject bucket key body ''application/json'')
                             (retryMax this) c1 of
                        (Inl e, c2) \<Rightarrow> (Rejected (AWSError e), c2)
                      | (Inr response, c2) \<Rightarrow> (Resolved response, c2))
                   else (Rejected (AWSError err), c1))
              | (Inr data, c1) \<Rightarrow> (Resolved data, c1))))"

text \<open>
  \<^verbatim>\<open>emptyS3Directory(bucket, dir)\<close>. A rejected \<^verbatim>\<open>await\<close> rejects the promise of the
  \<^verbatim>\<open>async\<close> method. On a truncated page the expression
  \<^verbatim>\<open>this.emptyS3Directory(bucket, dir).bind(this)\<close> first calls the method again, which
  starts the next round and returns its promise, and then calls \<^verbatim>\<open>.bind\<close> on that promise.
  A promise has no \<^verbatim>\<open>bind\<close> method, so a \<^verbatim>\<open>TypeError\<close> is thrown and the promise of the
  current call is rejected, while the round just started goes on by itself. The first
  component is the outcome of the promise of this call; the second is the client once
  every round that was started has run.
\<close>

function emptyS3Directory :: "jsval \<Rightarrow> jsval \<Rightarrow> s3 \<Rightarrow> unit promise \<times> s3" where
  "emptyS3Directory bucket dir c =
     (case cli_listObjectsV2 bucket dir c of
        (Inl e, c1) \<Rightarrow> (Rejected (AWSError e), c1)
      | (Inr listedObjects, c1) \<Rightarrow>
          (if length (Contents listedObjects) = 0 then (Resolved (), c1)
           else
             (case cli_deleteObjects bucket (Contents listedObjects) c1 of
                (Inl e, c2) \<Rightarrow> (Rejected (AWSError e), c2)
              | (Inr ack, c2) \<Rightarrow>
                  (if IsTruncated listedObjects
                   then (Rejected (TypeError ''this.emptyS3Directory(...).bind is not a function''),
                         snd (emptyS3Directory bucket dir c2))
                   else (Resolved (), c2)))))"
  by pat_completeness auto

text \<open>
  Every round that deletes removes at least the first key it listed, so the number of
  selected objects decreases from one round to the next.
\<close>

termination
proof (relation "measure (\<lambda>(bucket, dir, c). length (keys_under bucket dir c))", goal_cases)
  case 1
  show ?case by simp
next
  case (2 bucket dir c x c1 listedObjects xa c2 ack)
  let ?S = "selects bucket dir"
  let ?ks = "take (page_size c) (map snd (filter ?S (objects c)))"
  let ?N = "\<lambda>(b, k). \<not> (bucket = JString b \<and> k \<in> set ?ks)"
  from 2 have l: "cli_listObjectsV2 bucket dir c = (Inr listedObjects, c1)"
    and d: "cli_deleteObjects bucket (Contents listedObjects) c1 = (Inr ack, c2)"
    by simp_all
  from l have C: "Contents listedObjects = ?ks" and o1: "objects c1 = objects c"
    by (auto simp: cli_listObjectsV2_def keys_under_def Let_def split: option.splits)
  from d C o1 have o2: "objects c2 = filter ?N (objects c)"
    by (auto simp: cli_deleteObjects_def Let_def split: option.splits)
  from 2 C have "?ks \<noteq> []" by simp
  then obtain x where x: "x \<in> set (filter ?S (objects c))" and k: "snd x \<in> set ?ks"
    by (cases "filter ?S (objects c)"; cases "page_size c") auto
  from x have S: "?S x" by simp
  from S k have nN: "\<not> ?N x" by (cases x) simp
  have "length (filter ?N (filter ?S (objects c))) < length (filter ?S (objects c))"
    using x nN by (rule length_filter_less)
  then have "length (keys_under bucket dir c2) < length (keys_under bucket dir c)"
    by (simp add: keys_under_def o2 conj_commute)
  then show ?case by simp
qed

declare emptyS3Directory.simps [simp del]

section \<open>Concrete platforms and services\<close>

text \<open>
  A small platform on which the model can be run: its \<open>gunzip\<close> accepts a buffer that
  starts with the two gzip magic bytes and yields the rest, its \<open>JSON_parse\<close> knows
  two documents, and a buffer of ASCII bytes decodes to the same characters.
\<close>

definition gzip_header :: bytes where
  "gzip_header = [CHR 0x1F, CHR 0x8B]"

definition stub_runtime :: runtime where
  "stub_runtime =
     \<lparr>gunzip = (\<lambda>v. case v of
                   JBuffer b \<Rightarrow>
                     (if take 2 b = gzip_header then Inflated (drop 2 b)
                      else Failed (ZlibError ''incorrect header check''))
                 | _ \<Rightarrow> Thrown (TypeError ''ERR_INVALID_ARG_TYPE'')),
      toString = (\<lambda>v. case v of JBuffer b \<Rightarrow> b | JString s \<Rightarrow> s | _ \<Rightarrow> ''[object Object]''),
      JSON_parse = (\<lambda>s. if s = ''{}'' then Inr (JObject [])
                         else if s = ''null'' then Inr JNull
                         else Inl (SyntaxError ''Unexpected token'')),
      JSON_stringify = (\<lambda>v. if v = JNull then Inr ''null'' else Inr ''{}'')\<rparr>"

text \<open>The error of the request at position \<open>i\<close>: retryable, and different at every position.\<close>

definition throttled :: "nat \<Rightarrow> aws_error" where
  "throttled i = \<lparr>code = ''SlowDown '' @ replicate i (CHR ''I''), retryable = True\<rparr>"

text \<open>A service on which every Get and every Put fails with a retryable error.\<close>

definition always_throttled :: s3 where
  "always_throttled =
     \<lparr>get_replies = (\<lambda>i. Inl (throttled i)),
      put_replies = (\<lambda>i. Inl (throttled i)),
      faults = (\<lambda>i. None), objects = [], page_size = 1000, requests = []\<rparr>"

text \<open>A service on which every Get returns the body \<^verbatim>\<open>{}\<close> and every Put is acknowledged.\<close>

definition healthy :: s3 where
  "healthy =
     \<lparr>get_replies = (\<lambda>i. Inr \<lparr>Body = JBuffer ''{}'', ContentType = ''application/json''\<rparr>),
      put_replies = (\<lambda>i. Inr \<lparr>ETag = ''etag''\<rparr>),
      faults = (\<lambda>i. None), objects = [], page_size = 1000, requests = []\<rparr>"

text \<open>
  A service whose first Get fails with a retryable error and whose later Gets succeed
  with a response that carries no body.
\<close>

definition flaky_no_body :: s3 where
  "flaky_no_body =
     \<lparr>get_replies = (\<lambda>i. if i = 0 then Inl (throttled 0)
                          else Inr \<lparr>Body = JUndefined, ContentType = []\<rparr>),
      put_replies = (\<lambda>i. Inr \<lparr>ETag = ''etag''\<rparr>),
      faults = (\<lambda>i. None), objects = [], page_size = 1000, requests = []\<rparr>"

text \<open>A service that answers the first Get at once with a response that carries no body.\<close>

definition no_body :: s3 where
  "no_body =
     \<lparr>get_replies = (\<lambda>i. Inr \<lparr>Body = JUndefined, ContentType = []\<rparr>),
      put_replies = (\<lambda>i. Inr \<lparr>ETag = ''etag''\<rparr>),
      faults = (\<lambda>i. None), objects = [], page_size = 1000, requests = []\<rparr>"

text \<open>
  A bucket with three objects under the prefix \<^verbatim>\<open>d/\<close> and one elsewhere, listed one key
  per page: the listing of the prefix spans three pages, the first two truncated.
\<close>

definition three_pages :: s3 where
  "three_pages =
     \<lparr>get_replies = (\<lambda>i. Inr \<lparr>Body = JUndefined, ContentType = []\<rparr>),
      put_replies = (\<lambda>i. Inr \<lparr>ETag = ''etag''\<rparr>),
      faults = (\<lambda>i. None),
      objects = [(''b'', ''d/1''), (''b'', ''d/2''), (''b'', ''e/1''), (''b'', ''d/3'')],
      page_size = 1, requests = []\<rparr>"

section \<open>Properties\<close>

subsection \<open>Auxiliary facts\<close>

lemma indexOf_range: "(indexOf xs v = - 1 \<longleftrightarrow> v \<notin> set xs) \<and> - 1 \<le> indexOf xs v"
  by (induction xs) (auto simp: Let_def)

lemma indexOf_absent: "indexOf xs v = - 1 \<longleftrightarrow> v \<notin> set xs"
  by (simp add: indexOf_range)

lemma listObjectsV2_requests:
  "requests (snd (cli_listObjectsV2 bucket prefix c)) = requests c @ [ListObjectsV2 bucket prefix]"
  by (simp add: cli_listObjectsV2_def Let_def split: option.splits)

lemma deleteObjects_requests:
  "requests (snd (cli_deleteObjects bucket keys c)) = requests c @ [DeleteObjects bucket keys]"
  by (simp add: cli_deleteObjects_def Let_def split: option.splits)

lemma emptyS3Directory_requests_grow:
  "\<exists>rest. requests (snd (emptyS3Directory bucket dir c)) = requests c @ rest"
proof (induction bucket dir c rule: emptyS3Directory.induct)
  case (1 bucket dir c)
  obtain r c1 where l: "cli_listObjectsV2 bucket dir c = (r, c1)" by fastforce
  with listObjectsV2_requests [of bucket dir c]
  have r1: "requests c1 = requests c @ [ListObjectsV2 bucket dir]" by simp
  show ?case
  proof (cases r)
    case (Inl e)
    with l r1 show ?thesis by (simp add: emptyS3Directory.simps)
  next
    case (Inr listedObjects)
    obtain r' c2 where d: "cli_deleteObjects bucket (Contents listedObjects) c1 = (r', c2)"
      by fastforce
    with deleteObjects_requests [of bucket "Contents listedObjects" c1]
    have r2: "requests c2 = requests c1 @ [DeleteObjects bucket (Contents listedObjects)]" by simp
    show ?thesis
    proof (cases "length (Contents listedObjects) \<noteq> 0 \<and> IsTruncated listedObjects \<and> (\<exists>ack. r' = Inr ack)")
      case True
      then obtain ack where ack: "r' = Inr ack" by blast
      from True have ne: "length (Contents listedObjects) \<noteq> 0"
        and tr: "IsTruncated listedObjects" by simp_all
      from "1.IH" [OF l [symmetric] Inr ne d [symmetric] ack tr]
      obtain rest where "requests (snd (emptyS3Directory bucket dir c2)) = requests c2 @ rest"
        by blast
      with l Inr d ack True r1 r2 show ?thesis
        by (simp add: emptyS3Directory.simps [of bucket dir c])
    next
      case False
      with l Inr d r1 r2 show ?thesis
        by (cases r') (auto simp: emptyS3Directory.simps [of bucket dir c])
    qed
  qed
qed

lemma retry_getObject_exhausted:
  assumes "\<forall>i<m. \<exists>e. get_replies c (length (requests c) + i) = Inl e \<and> retryable e"
    and "0 < m"
  shows "retry (cli_getObject bucket key) m c
           = (get_replies c (length (requests c) + (m - 1)),
              c\<lparr>requests := requests c @ replicate m (GetObject bucket key)\<rparr>)"
  using assms
proof (induction m arbitrary: c)
  case 0
  then show ?case by simp
next
  case (Suc m)
  let ?c' = "c\<lparr>requests := requests c @ [GetObject bucket key]\<rparr>"
  from Suc.prems(1) obtain e where e: "get_replies c (length (requests c)) = Inl e" "retryable e"
    by force
  from e have step: "cli_getObject bucket key c = (Inl e, ?c')"
    by (simp add: cli_getObject_def)
  show ?case
  proof (cases "m = 0")
    case True
    with e step show ?thesis
      by (simp add: retry.simps [of _ "Suc 0"])
  next
    case False
    have "\<forall>i<m. \<exists>e. get_replies ?c' (length (requests ?c') + i) = Inl e \<and> retryable e"
      using Suc.prems(1) by (auto dest: spec [where x = "Suc i" for i])
    with False Suc.IH [of ?c']
    have "retry (cli_getObject bucket key) m ?c'
            = (get_replies c (length (requests c) + m),
               c\<lparr>requests := requests c @ replicate (Suc m) (GetObject bucket key)\<rparr>)"
      by (simp add: replicate_app_Cons_same)
    with e step False show ?thesis
      by (simp add: retry.simps [of _ "Suc m"])
  qed
qed

lemma retry_putObject_exhausted:
  assumes "\<forall>i<m. \<exists>e. put_replies c (length (requests c) + i) = Inl e \<and> retryable e"
    and "0 < m"
  shows "retry (cli_putObject bucket key body ctype) m c
           = (put_replies c (length (requests c) + (m - 1)),
              c\<lparr>requests := requests c @ replicate m (PutObject bucket key body ctype)\<rparr>)"
  using assms
proof (induction m arbitrary: c)
  case 0
  then show ?case by simp
next
  case (Suc m)
  let ?c' = "c\<lparr>requests := requests c @ [PutObject bucket key body ctype]\<rparr>"
  from Suc.prems(1) obtain e where e: "put_replies c (length (requests c)) = Inl e" "retryable e"
    by force
  from e have step: "cli_putObject bucket key body ctype c = (Inl e, ?c')"
    by (simp add: cli_putObject_def)
  show ?case
  proof (cases "m = 0")
    case True
    with e step show ?thesis
      by (simp add: retry.simps [of _ "Suc 0"])
  next
    case False
    have "\<forall>i<m. \<exists>e. put_replies ?c' (length (requests ?c') + i) = Inl e \<and> retryable e"
      using Suc.prems(1) by (auto dest: spec [where x = "Suc i" for i])
    with False Suc.IH [of ?c']
    have "retry (cli_putObject bucket key body ctype) m ?c'
            = (put_replies c (length (requests c) + m),
               c\<lparr>requests := requests c @ replicate (Suc m) (PutObject bucket key body ctype)\<rparr>)"
      by (simp add: replicate_app_Cons_same)
    with e step False show ?thesis
      by (simp add: retry.simps [of _ "Suc m"])
  qed
qed

subsection \<open>Bulk deletion\<close>

text \<open>
  Claim C1 (bulk deletion over three listing pages). The claim asks that a call on a
  prefix whose listing spans three pages completes successfully. What the method does on
  every listing that spans more than one page: when the first List and the first Delete
  succeed and the page is truncated, the promise of the call is rejected with the
  \<^verbatim>\<open>TypeError\<close> raised by \<^verbatim>\<open>.bind\<close> on the promise of the next round. A prefix of three
  pages is the instance shown after the theorem.
\<close>

theorem emptyS3Directory_truncated:
  assumes "faults c (length (requests c)) = None"
    and "faults c (Suc (length (requests c))) = None"
    and "0 < page_size c"
    and "page_size c < length (keys_under bucket dir c)"
  shows "fst (emptyS3Directory bucket dir c)
           = Rejected (TypeError ''this.emptyS3Directory(...).bind is not a function'')"
  using assms
  by (simp add: emptyS3Directory.simps [of bucket dir c] cli_listObjectsV2_def
      cli_deleteObjects_def Let_def)

theorem emptyS3Directory_truncated_witness:
  "length (keys_under (JString ''b'') (JString ''d/'') three_pages) = 3
   \<and> page_size three_pages = 1
   \<and> fst (emptyS3Directory (JString ''b'') (JString ''d/'') three_pages)
         = Rejected (TypeError ''this.emptyS3Directory(...).bind is not a function'')
   \<and> fst (emptyS3Directory (JString ''b'') (JString ''d/'') three_pages) \<noteq> Resolved ()"
  using emptyS3Directory_truncated [of three_pages "JString ''b''" "JString ''d/''"]
  by (simp add: three_pages_def keys_under_def)

subsection \<open>Responses without a body\<close>

text \<open>
  Claim C2 (a response without a body). The claim asks for \<^verbatim>\<open>FILE_NOT_FOUND\<close> whenever a
  successful Get carries no buffer as its body, on the first attempt or on a retried one.
  What the method does on the retried path: when the first Get fails with a retryable
  error and the next one succeeds, the response goes to the formatter without the check
  of the body, so the promise is resolved with whatever the body is (\<^verbatim>\<open>"buffer"\<close>) or with
  the whole response (\<^verbatim>\<open>"all"\<close>), or rejected with the \<^verbatim>\<open>TypeError\<close> of reading a property
  of \<^verbatim>\<open>undefined\<close> (\<^verbatim>\<open>"string"\<close>, body absent). The instance after the theorem also shows the first
  attempt, where the check is made.
\<close>

theorem getObject_retried_body_unchecked:
  assumes "typeof bucket = ''string''" and "typeof key = ''string''"
    and "get_replies c (length (requests c)) = Inl err" and "retryable err"
    and "get_replies c (Suc (length (requests c))) = Inr data"
  shows "fst (getObject this rt bucket key (JString ''buffer'') (JBoolean False) c)
           = Resolved (Formatted (Body data))
         \<and> fst (getObject this rt bucket key (JString ''all'') (JBoolean False) c)
           = Resolved (FullResponse data)
         \<and> (Body data = JUndefined \<longrightarrow>
              fst (getObject this rt bucket key (JString ''string'') (JBoolean False) c)
                = Rejected (TypeError ''Cannot read properties of undefined''))"
proof -
  let ?c1 = "c\<lparr>requests := requests c @ [GetObject bucket key]\<rparr>"
  let ?c2 = "?c1\<lparr>requests := requests ?c1 @ [GetObject bucket key]\<rparr>"
  have first: "cli_getObject bucket key c = (Inl err, ?c1)"
    using assms(3) by (simp add: cli_getObject_def)
  have second: "cli_getObject bucket key ?c1 = (Inr data, ?c2)"
    using assms(5) by (simp add: cli_getObject_def)
  have again: "retry (cli_getObject bucket key) (retryMax this) ?c1 = (Inr data, ?c2)"
    using second by (simp add: retry.simps [of _ "retryMax this"])
  show ?thesis
    unfolding getObject_def Let_def
    using assms(1,2,4) first again
    by (simp add: GET_OBJECT_RETURN_TYPE_ALLOWED_def formatGetObjectResponse_def
        call_toString_def)
qed

theorem getObject_retried_body_unchecked_witness:
  "fst (getObject (new_S3Tools None) stub_runtime (JString ''b'') (JString ''missing-key'')
          (JString ''buffer'') (JBoolean False) flaky_no_body)
     = Resolved (Formatted JUndefined)
   \<and> fst (getObject (new_S3Tools None) stub_runtime (JString ''b'') (JString ''missing-key'')
          (JString ''buffer'') (JBoolean False) flaky_no_body)
     \<noteq> Rejected (Error FILE_NOT_EXIST)
   \<and> fst (getObject (new_S3Tools None) stub_runtime (JString ''b'') (JString ''missing-key'')
          (JString ''buffer'') (JBoolean False) no_body)
     = Rejected (Error FILE_NOT_EXIST)"
proof -
  have r: "requests flaky_no_body = []"
    and g0: "get_replies flaky_no_body 0 = Inl (throttled 0)"
    and g1: "get_replies flaky_no_body (Suc 0) = Inr \<lparr>Body = JUndefined, ContentType = []\<rparr>"
    by (simp_all add: flaky_no_body_def)
  have t: "retryable (throttled 0)"
    by (simp add: throttled_def)
  have sibling: "fst (getObject (new_S3Tools None) stub_runtime (JString ''b'') (JString ''missing-key'')
          (JString ''buffer'') (JBoolean False) no_body) = Rejected (Error FILE_NOT_EXIST)"
    by (simp add: getObject_def GET_OBJECT_RETURN_TYPE_ALLOWED_def cli_getObject_def no_body_def)
  show ?thesis
    using getObject_retried_body_unchecked [of "JString ''b''" "JString ''missing-key''" flaky_no_body
        "throttled 0" "\<lparr>Body = JUndefined, ContentType = []\<rparr>" "new_S3Tools None" stub_runtime]
      sibling
    by (simp add: r g0 g1 t)
qed

subsection \<open>Validation of getObject\<close>

text \<open>
  Claim C3 (validation in \<^verbatim>\<open>getObject\<close>), as amended. When \<^verbatim>\<open>bucket\<close> or \<^verbatim>\<open>key\<close> is not a
  string, or a given \<^verbatim>\<open>returnType\<close> is not one of the four allowed strings, or a given
  \<^verbatim>\<open>gzip\<close> is not a boolean, the call is rejected with
  \<^verbatim>\<open>Error("S3_TOOLS_BAD_PARAM_GetObject")\<close> and the client is left untouched: no request is
  made. The check is on the type only: an empty string passes it, as the counterexample
  shows, and an argument that is \<^verbatim>\<open>undefined\<close> takes its default first.
\<close>

theorem getObject_validation:
  assumes "typeof bucket \<noteq> ''string'' \<or> typeof key \<noteq> ''string''
      \<or> (returnType \<noteq> JUndefined \<and> returnType \<notin> set GET_OBJECT_RETURN_TYPE_ALLOWED)
      \<or> (gzip \<noteq> JUndefined \<and> typeof gzip \<noteq> ''boolean'')"
  shows "getObject this rt bucket key returnType gzip c
           = (Rejected (Error ''S3_TOOLS_BAD_PARAM_GetObject''), c)"
  using assms by (auto simp: getObject_def BAD_PARAM_def indexOf_absent)

theorem getObject_validation_witness:
  "getObject (new_S3Tools None) stub_runtime (JNumber 5) (JString ''k'') (JString ''object'') (JBoolean False) healthy
     = (Rejected (Error ''S3_TOOLS_BAD_PARAM_GetObject''), healthy)
   \<and> requests healthy = []"
  using getObject_validation [of "JNumber 5" "JString ''k''" "JString ''object''" "JBoolean False"
      "new_S3Tools None" stub_runtime healthy]
  by (simp add: healthy_def)

theorem getObject_empty_bucket_counterexample:
  "fst (getObject (new_S3Tools None) stub_runtime (JString []) (JString ''k'')
          (JString ''object'') (JBoolean False) healthy)
     = Resolved (Formatted (JObject []))
   \<and> requests (snd (getObject (new_S3Tools None) stub_runtime (JString []) (JString ''k'')
          (JString ''object'') (JBoolean False) healthy))
     = [GetObject (JString []) (JString ''k'')]
   \<and> requests healthy = []"
  by (simp add: getObject_def GET_OBJECT_RETURN_TYPE_ALLOWED_def cli_getObject_def healthy_def
      formatGetObjectResponse_def call_toString_def stub_runtime_def)

subsection \<open>Exhausted retries\<close>

text \<open>
  Claim C4 (exhausted retries), as amended. With \<^verbatim>\<open>retryMax = n \<ge> 1\<close> and valid
  arguments, a Get or a Put whose every attempt fails with a retryable error makes
  exactly \<open>n + 1\<close> requests: the call of the method itself, then the \<open>n\<close> attempts of
  \<open>retry\<close>. The error that rejects the promise is the error of the last of these
  requests. The counterexample is the case \<open>n = 1\<close>: two requests are made, not one.
\<close>

theorem exhausted_retries:
  assumes "1 \<le> retryMax this"
  shows "(typeof bucket = ''string'' \<and> typeof key = ''string''
          \<and> (returnType = JUndefined \<or> returnType \<in> set GET_OBJECT_RETURN_TYPE_ALLOWED)
          \<and> (gzip = JUndefined \<or> typeof gzip = ''boolean'')
          \<and> (\<forall>i\<le>retryMax this. \<exists>e. get_replies c (length (requests c) + i) = Inl e \<and> retryable e)
          \<longrightarrow> (\<exists>e. get_replies c (length (requests c) + retryMax this) = Inl e
                \<and> getObject this rt bucket key returnType gzip c
                    = (Rejected (AWSError e),
                       c\<lparr>requests := requests c @ replicate (Suc (retryMax this)) (GetObject bucket key)\<rparr>)))
       \<and> (typeof bucket = ''string'' \<and> typeof key = ''string'' \<and> typeof json = ''object''
          \<and> JSON_stringify rt json = Inr body
          \<and> (\<forall>i\<le>retryMax this. \<exists>e. put_replies c (length (requests c) + i) = Inl e \<and> retryable e)
          \<longrightarrow> (\<exists>e. put_replies c (length (requests c) + retryMax this) = Inl e
                \<and> putJsonObject this rt bucket key json c
                    = (Rejected (AWSError e),
                       c\<lparr>requests := requests c
                            @ replicate (Suc (retryMax this)) (PutObject bucket key body ''application/json'')\<rparr>)))"
proof (intro conjI impI)
  let ?n = "retryMax this"
  assume a: "typeof bucket = ''string'' \<and> typeof key = ''string''
          \<and> (returnType = JUndefined \<or> returnType \<in> set GET_OBJECT_RETURN_TYPE_ALLOWED)
          \<and> (gzip = JUndefined \<or> typeof gzip = ''boolean'')
          \<and> (\<forall>i\<le>retryMax this. \<exists>e. get_replies c (length (requests c) + i) = Inl e \<and> retryable e)"
  let ?c1 = "c\<lparr>requests := requests c @ [GetObject bucket key]\<rparr>"
  from a obtain e0 where e0: "get_replies c (length (requests c)) = Inl e0" "retryable e0"
    by force
  from a obtain e where e: "get_replies c (length (requests c) + ?n) = Inl e"
    by blast
  have first: "cli_getObject bucket key c = (Inl e0, ?c1)"
    using e0 by (simp add: cli_getObject_def)
  have "\<forall>i<?n. \<exists>e. get_replies ?c1 (length (requests ?c1) + i) = Inl e \<and> retryable e"
  proof (intro allI impI)
    fix i
    assume "i < ?n"
    then have "Suc i \<le> ?n" by simp
    with a obtain e where "get_replies c (length (requests c) + Suc i) = Inl e \<and> retryable e"
      by blast
    then show "\<exists>e. get_replies ?c1 (length (requests ?c1) + i) = Inl e \<and> retryable e"
      by simp
  qed
  from retry_getObject_exhausted [OF this, of bucket key] assms e
  have rest: "retry (cli_getObject bucket key) ?n ?c1
        = (Inl e, c\<lparr>requests := requests c @ replicate (Suc ?n) (GetObject bucket key)\<rparr>)"
    by (simp add: replicate_app_Cons_same)
  have valid: "\<not> (typeof bucket \<noteq> ''string'' \<or> typeof key \<noteq> ''string''
         \<or> indexOf GET_OBJECT_RETURN_TYPE_ALLOWED
              (if returnType = JUndefined then JString ''object'' else returnType) = - 1
         \<or> typeof (if gzip = JUndefined then JBoolean False else gzip) \<noteq> ''boolean'')"
    using a by (auto simp: indexOf_absent GET_OBJECT_RETURN_TYPE_ALLOWED_def)
  have "getObject this rt bucket key returnType gzip c
          = (Rejected (AWSError e),
             c\<lparr>requests := requests c @ replicate (Suc ?n) (GetObject bucket key)\<rparr>)"
    unfolding getObject_def Let_def using valid first rest e0 by simp
  with e show "\<exists>e. get_replies c (length (requests c) + ?n) = Inl e
                \<and> getObject this rt bucket key returnType gzip c
                    = (Rejected (AWSError e),
                       c\<lparr>requests := requests c @ replicate (Suc ?n) (GetObject bucket key)\<rparr>)"
    by blast
next
  let ?n = "retryMax this"
  let ?req = "PutObject bucket key body ''application/json''"
  assume a: "typeof bucket = ''string'' \<and> typeof key = ''string'' \<and> typeof json = ''object''
          \<and> JSON_stringify rt json = Inr body
          \<and> (\<forall>i\<le>retryMax this. \<exists>e. put_replies c (length (requests c) + i) = Inl e \<and> retryable e)"
  let ?c1 = "c\<lparr>requests := requests c @ [?req]\<rparr>"
  from a obtain e0 where e0: "put_replies c (length (requests c)) = Inl e0" "retryable e0"
    by force
  from a obtain e where e: "put_replies c (length (requests c) + ?n) = Inl e"
    by blast
  have first: "cli_putObject bucket key body ''application/json'' c = (Inl e0, ?c1)"
    using e0 by (simp add: cli_putObject_def)
  have "\<forall>i<?n. \<exists>e. put_replies ?c1 (length (requests ?c1) + i) = Inl e \<and> retryable e"
  proof (intro allI impI)
    fix i
    assume "i < ?n"
    then have "Suc i \<le> ?n" by simp
    with a obtain e where "put_replies c (length (requests c) + Suc i) = Inl e \<and> retryable e"
      by blast
    then show "\<exists>e. put_replies ?c1 (length (requests ?c1) + i) = Inl e \<and> retryable e"
      by simp
  qed
  from retry_putObject_exhausted [OF this, of bucket key body "''application/json''"] assms e
  have rest: "retry (cli_putObject bucket key body ''application/json'') ?n ?c1
        = (Inl e, c\<lparr>requests := requests c @ replicate (Suc ?n) ?req\<rparr>)"
    by (simp add: replicate_app_Cons_same)
  have "putJsonObject this rt bucket key json c
          = (Rejected (AWSError e), c\<lparr>requests := requests c @ replicate (Suc ?n) ?req\<rparr>)"
    unfolding putJsonObject_def using a first rest e0 by simp
  with e show "\<exists>e. put_replies c (length (requests c) + ?n) = Inl e
                \<and> putJsonObject this rt bucket key json c
                    = (Rejected (AWSError e), c\<lparr>requests := requests c @ replicate (Suc ?n) ?req\<rparr>)"
    by blast
qed

theorem exhausted_retries_witness:
  "getObject (new_S3Tools (Some 2)) stub_runtime (JString ''b'') (JString ''k'') JUndefined JUndefined always_throttled
     = (Rejected (AWSError (throttled 2)),
        always_throttled\<lparr>requests := [GetObject (JString ''b'') (JString ''k''), GetObject (JString ''b'') (JString ''k''),
                                    GetObject (JString ''b'') (JString ''k'')]\<rparr>)
   \<and> putJsonObject (new_S3Tools (Some 2)) stub_runtime (JString ''b'') (JString ''k'') (JObject []) always_throttled
     = (Rejected (AWSError (throttled 2)),
        always_throttled\<lparr>requests := [PutObject (JString ''b'') (JString ''k'') ''{}'' ''application/json'',
                                    PutObject (JString ''b'') (JString ''k'') ''{}'' ''application/json'',
                                    PutObject (JString ''b'') (JString ''k'') ''{}'' ''application/json'']\<rparr>)"
proof -
  have n: "retryMax (new_S3Tools (Some 2)) = 2"
    by (simp add: new_S3Tools_def)
  have r: "requests always_throttled = []"
    and g: "get_replies always_throttled i = Inl (throttled i)"
    and p: "put_replies always_throttled i = Inl (throttled i)" for i
    by (simp_all add: always_throttled_def)
  have t: "retryable (throttled i)" for i
    by (simp add: throttled_def)
  have j: "JSON_stringify stub_runtime (JObject []) = Inr ''{}''"
    by (simp add: stub_runtime_def)
  have rep: "replicate 3 x = [x, x, x]" for x :: request
    by (simp add: numeral_3_eq_3)
  have t2: "throttled (Suc (Suc 0)) = throttled 2"
    by (simp add: numeral_2_eq_2)
  show ?thesis
    using exhausted_retries [of "new_S3Tools (Some 2)" "JString ''b''" "JString ''k''" JUndefined JUndefined
      always_throttled stub_runtime "JObject []" "''{}''"]
    by (simp add: n r g p t j rep t2)
qed

theorem exhausted_retries_counterexample:
  "length (requests (snd (getObject (new_S3Tools (Some 1)) stub_runtime (JString ''b'') (JString ''k'')
       (JString ''object'') (JBoolean False) always_throttled))) = 2
   \<and> length (requests (snd (getObject (new_S3Tools (Some 1)) stub_runtime (JString ''b'') (JString ''k'')
       (JString ''object'') (JBoolean False) always_throttled))) \<noteq> retryMax (new_S3Tools (Some 1))"
  by code_simp

subsection \<open>Parse failures\<close>

text \<open>
  Claim C5 (parse failure in the \<^verbatim>\<open>"object"\<close> format). The claim asks that a payload that
  is not a JSON document makes the formatter fail with the parse error, compressed or
  not. What the formatter does with \<^verbatim>\<open>gzip\<close>: when the body inflates and the inflated
  text does not parse, the exception of \<^verbatim>\<open>JSON.parse\<close> is thrown inside the callback of
  \<^verbatim>\<open>zlib.gunzip\<close>, and the promise is never settled. The instance after the theorem also
  shows the uncompressed path, which rejects with the parse error, and a corrupt
  compressed stream, which rejects with the error of \<^verbatim>\<open>zlib\<close>.
\<close>

theorem format_object_gzip_parse_failure:
  assumes "gunzip rt (Body data) = Inflated d"
    and "JSON_parse rt (toString rt (JBuffer d)) = Inl e"
  shows "formatGetObjectResponse rt data (JString ''object'') (JBoolean True) = Uncaught e"
  using assms by (simp add: formatGetObjectResponse_def)

theorem format_object_gzip_parse_failure_witness:
  "formatGetObjectResponse stub_runtime \<lparr>Body = JBuffer (gzip_header @ ''not json''), ContentType = []\<rparr>
       (JString ''object'') (JBoolean True)
     = Uncaught (SyntaxError ''Unexpected token'')
   \<and> formatGetObjectResponse stub_runtime \<lparr>Body = JBuffer ''not json'', ContentType = []\<rparr>
       (JString ''object'') (JBoolean False)
     = Rejected (SyntaxError ''Unexpected token'')
   \<and> formatGetObjectResponse stub_runtime \<lparr>Body = JBuffer ''not gzip'', ContentType = []\<rparr>
       (JString ''object'') (JBoolean True)
     = Rejected (ZlibError ''incorrect header check'')"
proof -
  have z: "gunzip stub_runtime (JBuffer (gzip_header @ ''not json'')) = Inflated ''not json''"
    by (simp add: stub_runtime_def gzip_header_def)
  have p: "JSON_parse stub_runtime (toString stub_runtime (JBuffer ''not json''))
             = Inl (SyntaxError ''Unexpected token'')"
    by (simp add: stub_runtime_def)
  have plain: "formatGetObjectResponse stub_runtime \<lparr>Body = JBuffer ''not json'', ContentType = []\<rparr>
       (JString ''object'') (JBoolean False) = Rejected (SyntaxError ''Unexpected token'')"
    by (simp add: formatGetObjectResponse_def call_toString_def stub_runtime_def)
  have corrupt: "formatGetObjectResponse stub_runtime \<lparr>Body = JBuffer ''not gzip'', ContentType = []\<rparr>
       (JString ''object'') (JBoolean True) = Rejected (ZlibError ''incorrect header check'')"
    by (simp add: formatGetObjectResponse_def stub_runtime_def gzip_header_def)
  show ?thesis
    using format_object_gzip_parse_failure [of stub_runtime
        "\<lparr>Body = JBuffer (gzip_header @ ''not json''), ContentType = []\<rparr>" "''not json''"
        "SyntaxError ''Unexpected token''"] z p plain corrupt
    by simp
qed

subsection \<open>The buffer format\<close>

text \<open>
  Claim C6 (the \<^verbatim>\<open>"buffer"\<close> format). Without \<^verbatim>\<open>gzip\<close> the body is returned unchanged.
  With \<^verbatim>\<open>gzip\<close>, whenever the platform's \<open>gunzip\<close> inverts \<open>compress\<close> on the
  bytes, formatting the compressed bytes returns the bytes.
\<close>

theorem format_buffer:
  "formatGetObjectResponse rt (data\<lparr>Body := JBuffer bs\<rparr>) (JString ''buffer'') (JBoolean False)
     = Resolved (Formatted (JBuffer bs))
   \<and> (gunzip rt (JBuffer (compress bs)) = Inflated bs \<longrightarrow>
        formatGetObjectResponse rt (data\<lparr>Body := JBuffer (compress bs)\<rparr>) (JString ''buffer'') (JBoolean True)
          = Resolved (Formatted (JBuffer bs)))"
  by (simp add: formatGetObjectResponse_def)

theorem format_buffer_witness:
  "formatGetObjectResponse stub_runtime \<lparr>Body = JBuffer ''abc'', ContentType = []\<rparr> (JString ''buffer'') (JBoolean False)
     = Resolved (Formatted (JBuffer ''abc''))
   \<and> gunzip stub_runtime (JBuffer (gzip_header @ ''abc'')) = Inflated ''abc''
   \<and> formatGetObjectResponse stub_runtime \<lparr>Body = JBuffer (gzip_header @ ''abc''), ContentType = []\<rparr> (JString ''buffer'') (JBoolean True)
          = Resolved (Formatted (JBuffer ''abc''))"
  using format_buffer [where rt = stub_runtime and data = "\<lparr>Body = JUndefined, ContentType = []\<rparr>"
      and bs = "''abc''" and compress = "\<lambda>b. gzip_header @ b"]
  by (simp add: stub_runtime_def gzip_header_def)

subsection \<open>Validation of putJsonObject\<close>

text \<open>
  Claim C7 (validation in \<^verbatim>\<open>putJsonObject\<close>), as amended. When \<^verbatim>\<open>bucket\<close> or \<^verbatim>\<open>key\<close> is
  not a string, or \<^verbatim>\<open>typeof json\<close> is not \<^verbatim>\<open>"object"\<close>, the call is rejected with
  \<^verbatim>\<open>Error("S3_TOOLS_BAD_PARAM_PutObject")\<close> and no request is made. An empty string
  passes the check, as the counterexample shows.
\<close>

theorem putJsonObject_validation:
  assumes "typeof bucket \<noteq> ''string'' \<or> typeof key \<noteq> ''string'' \<or> typeof json \<noteq> ''object''"
  shows "putJsonObject this rt bucket key json c
           = (Rejected (Error ''S3_TOOLS_BAD_PARAM_PutObject''), c)"
  using assms by (auto simp: putJsonObject_def BAD_PARAM_def)

theorem putJsonObject_validation_witness:
  "putJsonObject (new_S3Tools None) stub_runtime (JString ''b'') (JString ''k'') (JNumber 1) healthy
     = (Rejected (Error ''S3_TOOLS_BAD_PARAM_PutObject''), healthy)
   \<and> requests healthy = []"
  using putJsonObject_validation [of "JString ''b''" "JString ''k''" "JNumber 1"
      "new_S3Tools None" stub_runtime healthy]
  by (simp add: healthy_def)

theorem putJsonObject_empty_bucket_counterexample:
  "fst (putJsonObject (new_S3Tools None) stub_runtime (JString []) (JString ''k'') (JObject []) healthy)
     = Resolved \<lparr>ETag = ''etag''\<rparr>
   \<and> requests (snd (putJsonObject (new_S3Tools None) stub_runtime (JString []) (JString ''k'')
          (JObject []) healthy))
     = [PutObject (JString []) (JString ''k'') ''{}'' ''application/json'']
   \<and> requests healthy = []"
  by (simp add: putJsonObject_def cli_putObject_def healthy_def stub_runtime_def)

subsection \<open>Defaults of getObject\<close>

text \<open>
  Claim C9 (defaults of \<^verbatim>\<open>getObject\<close>). A call with \<^verbatim>\<open>returnType\<close> and \<^verbatim>\<open>gzip\<close> omitted
  behaves as the call with \<^verbatim>\<open>returnType = "object"\<close> and \<^verbatim>\<open>gzip = false\<close>: same outcome
  and same requests, for every bucket, key and client.
\<close>

theorem getObject_defaults:
  "getObject this rt bucket key JUndefined JUndefined c =
   getObject this rt bucket key (JString ''object'') (JBoolean False) c"
  by (simp add: getObject_def)

theorem getObject_defaults_witness:
  "fst (getObject (new_S3Tools None) stub_runtime (JString ''b'') (JString ''k'')
          JUndefined JUndefined healthy)
     = Resolved (Formatted (JObject []))
   \<and> requests (snd (getObject (new_S3Tools None) stub_runtime (JString ''b'') (JString ''k'')
          JUndefined JUndefined healthy))
     = [GetObject (JString ''b'') (JString ''k'')]"
proof -
  have "fst (getObject (new_S3Tools None) stub_runtime (JString ''b'') (JString ''k'')
          (JString ''object'') (JBoolean False) healthy)
     = Resolved (Formatted (JObject []))
   \<and> requests (snd (getObject (new_S3Tools None) stub_runtime (JString ''b'') (JString ''k'')
          (JString ''object'') (JBoolean False) healthy))
     = [GetObject (JString ''b'') (JString ''k'')]"
    by (simp add: getObject_def GET_OBJECT_RETURN_TYPE_ALLOWED_def cli_getObject_def healthy_def
        formatGetObjectResponse_def call_toString_def stub_runtime_def)
  then show ?thesis
    by (simp only: getObject_defaults)
qed

subsection \<open>No validation in emptyS3Directory\<close>

text \<open>
  Claim C10 (no validation in \<^verbatim>\<open>emptyS3Directory\<close>). For every bucket and every prefix
  argument, strings or not, empty or not, the first thing the method does is a List
  request with exactly these arguments, and it never rejects with an \<^verbatim>\<open>Error\<close> object of
  the module's own making (the validation errors of \<^verbatim>\<open>getObject\<close> and \<^verbatim>\<open>putJsonObject\<close>
  are such objects).
\<close>

theorem emptyS3Directory_no_validation:
  "(\<exists>rest. requests (snd (emptyS3Directory bucket dir c))
             = requests c @ ListObjectsV2 bucket dir # rest)
   \<and> (\<forall>msg. fst (emptyS3Directory bucket dir c) \<noteq> Rejected (Error msg))"
proof
  obtain r c1 where l: "cli_listObjectsV2 bucket dir c = (r, c1)" by fastforce
  with listObjectsV2_requests [of bucket dir c]
  have r1: "requests c1 = requests c @ [ListObjectsV2 bucket dir]" by simp
  show "\<exists>rest. requests (snd (emptyS3Directory bucket dir c))
             = requests c @ ListObjectsV2 bucket dir # rest"
  proof (cases r)
    case (Inl e)
    with l r1 show ?thesis by (simp add: emptyS3Directory.simps)
  next
    case (Inr listedObjects)
    obtain r' c2 where d: "cli_deleteObjects bucket (Contents listedObjects) c1 = (r', c2)"
      by fastforce
    with deleteObjects_requests [of bucket "Contents listedObjects" c1]
    have r2: "requests c2 = requests c1 @ [DeleteObjects bucket (Contents listedObjects)]" by simp
    obtain rest where rest: "requests (snd (emptyS3Directory bucket dir c2)) = requests c2 @ rest"
      using emptyS3Directory_requests_grow by blast
    from l Inr d r1 r2 rest show ?thesis
      by (cases r') (auto simp: emptyS3Directory.simps [of bucket dir c])
  qed
  show "\<forall>msg. fst (emptyS3Directory bucket dir c) \<noteq> Rejected (Error msg)"
    by (auto simp: emptyS3Directory.simps [of bucket dir c] split: prod.splits sum.splits)
qed

theorem emptyS3Directory_no_validation_witness:
  "(\<exists>rest. requests (snd (emptyS3Directory (JNumber 7) (JString []) healthy))
             = ListObjectsV2 (JNumber 7) (JString []) # rest)
   \<and> fst (emptyS3Directory (JNumber 7) (JString []) healthy) \<noteq> Rejected (Error ''S3_TOOLS_BAD_PARAM'')"
  using emptyS3Directory_no_validation [of "JNumber 7" "JString []" healthy]
  by (simp add: healthy_def)

end
